theory Spec2Isabelle
  imports Main "HOL-Library.Sublist"
begin

section \<open>The declaration model of ClassVersion.cpp\<close>

text \<open>
  The tool walks the syntax tree of a C++ program, records every class declaration that
  passes a name filter together with its data members, and prints the collected records as
  nested, near-JSON text. This theory embeds the filter-capable variant of the program
  (the one with the \<open>-m\<close> match list): its three value types, the visitor callback, the
  three \<open>dump\<close> member functions and the driver \<open>dump_tool_database\<close>.

  A \<open>std::string\<close> is a \<open>string\<close> (a list of bytes), a \<open>std::vector\<close> is a list in
  insertion order. The C++ \<open>int\<close> of the indentation arguments and of the loop counters is
  modelled by \<open>int\<close>. The program adds at most 16 to the base indentation, which the
  driver fixes to 0, and counts the elements of a vector up from 0, so in a run of the tool
  no addition leaves the range of a 32-bit \<open>int\<close>. A caller of \<open>dump\<close> that passes a base
  indentation above \<open>2^31 - 17\<close> makes an addition overflow, which C++ leaves undefined;
  the model does not describe such calls.
\<close>

record FieldDatabase =
  type :: string
  variable :: string

record ClassDatabase =
  m_fields :: "FieldDatabase list"
  m_name :: string

record ToolDatabase =
  m_classes :: "ClassDatabase list"

text \<open>
  What the program reads from the syntax tree: of a field declaration the printed type and
  the qualified name, of a class declaration the qualified name and the fields declared
  directly in it, in declaration order.
\<close>

record FieldDecl =
  fd_getType :: string
  fd_getQualifiedNameAsString :: string

record CXXRecordDecl =
  rd_getQualifiedNameAsString :: string
  rd_fields :: "FieldDecl list"

section \<open>The name filter\<close>

text \<open>
  \<open>std::string::find\<close> with start position 0: the least position at which the pattern
  occurs, \<open>None\<close> for \<open>npos\<close>. The empty pattern is found at position 0 of every string,
  the empty one included.
\<close>

fun string_find :: "string \<Rightarrow> string \<Rightarrow> nat option" where
  "string_find [] m = (if m = [] then Some 0 else None)"
| "string_find (c # cs) m =
     (if prefix m (c # cs) then Some 0 else map_option Suc (string_find cs m))"

text \<open>The loop of \<open>shouldVisit\<close> over the match list, leaving at the first hit.\<close>

fun shouldVisit_loop :: "string \<Rightarrow> string list \<Rightarrow> bool" where
  "shouldVisit_loop class_name [] = False"
| "shouldVisit_loop class_name (m # ms) =
     (if string_find class_name m \<noteq> None then True else shouldVisit_loop class_name ms)"

definition shouldVisit :: "string list \<Rightarrow> CXXRecordDecl \<Rightarrow> bool" where
  "shouldVisit matchList Declaration =
     (if matchList = [] then True
      else shouldVisit_loop (rd_getQualifiedNameAsString Declaration) matchList)"

section \<open>Populating the database\<close>

text \<open>
  \<open>ToolDatabase::addClass\<close> appends a record built by the constructor of \<open>ClassDatabase\<close>
  (the given name, no fields) and returns a reference to \<open>m_classes.back()\<close>;
  \<open>ClassDatabase::addField\<close> appends a default-constructed \<open>FieldDatabase\<close> (two empty
  strings) and returns a reference to \<open>m_fields.back()\<close>. A reference into a vector is its
  index. The visitor holds both references only until the next \<open>addClass\<close>, and nothing is
  appended to \<open>m_classes\<close> in between, so the indices stay in range and denote the same
  elements as the C++ references do.
\<close>

definition addClass :: "string \<Rightarrow> ToolDatabase \<Rightarrow> nat \<times> ToolDatabase" where
  "addClass name tdb =
     (let tdb' = tdb\<lparr>m_classes := m_classes tdb @ [\<lparr>m_fields = [], m_name = name\<rparr>]\<rparr>
      in (length (m_classes tdb') - 1, tdb'))"

definition addField :: "ClassDatabase \<Rightarrow> nat \<times> ClassDatabase" where
  "addField cdb =
     (let cdb' = cdb\<lparr>m_fields := m_fields cdb @ [\<lparr>type = [], variable = []\<rparr>]\<rparr>
      in (length (m_fields cdb') - 1, cdb'))"

text \<open>
  The body of the loop over \<open>Declaration->fields()\<close>: \<open>cdb\<close> is the reference obtained from
  \<open>addClass\<close>, \<open>fdb\<close> the one obtained from \<open>addField\<close>, and the two assignments write
  through \<open>fdb\<close>.
\<close>

definition VisitCXXRecordDecl_body :: "nat \<Rightarrow> FieldDecl \<Rightarrow> ToolDatabase \<Rightarrow> ToolDatabase" where
  "VisitCXXRecordDecl_body cdb fdcl tdb =
     (let (fdb, c1) = addField (m_classes tdb ! cdb);
          c2 = c1\<lparr>m_fields := (m_fields c1)[fdb := (m_fields c1 ! fdb)\<lparr>type := fd_getType fdcl\<rparr>]\<rparr>;
          c3 = c2\<lparr>m_fields := (m_fields c2)[fdb := (m_fields c2 ! fdb)
                 \<lparr>variable := fd_getQualifiedNameAsString fdcl\<rparr>]\<rparr>
      in tdb\<lparr>m_classes := (m_classes tdb)[cdb := c3]\<rparr>)"

fun VisitCXXRecordDecl_loop :: "nat \<Rightarrow> FieldDecl list \<Rightarrow> ToolDatabase \<Rightarrow> ToolDatabase" where
  "VisitCXXRecordDecl_loop cdb [] tdb = tdb"
| "VisitCXXRecordDecl_loop cdb (fdcl # rest) tdb =
     VisitCXXRecordDecl_loop cdb rest (VisitCXXRecordDecl_body cdb fdcl tdb)"

text \<open>
  The callback returns the updated global database and the flag the syntax-tree walker
  reads: \<open>True\<close> continues the traversal. Both exits of the callback return \<open>True\<close>.
\<close>

definition VisitCXXRecordDecl ::
  "string list \<Rightarrow> CXXRecordDecl \<Rightarrow> ToolDatabase \<Rightarrow> bool \<times> ToolDatabase" where
  "VisitCXXRecordDecl matchList Declaration global_tdb =
     (if \<not> shouldVisit matchList Declaration then (True, global_tdb)
      else
        (let (cdb, tdb1) = addClass (rd_getQualifiedNameAsString Declaration) global_tdb
         in (True, VisitCXXRecordDecl_loop cdb (rd_fields Declaration) tdb1)))"

text \<open>
  The walker of the syntax-tree library, seen from the program: it calls the callback once
  per class declaration, in the order it meets them, and stops as soon as a callback
  returns \<open>False\<close>.
\<close>

fun TraverseDecl ::
  "string list \<Rightarrow> CXXRecordDecl list \<Rightarrow> ToolDatabase \<Rightarrow> bool \<times> ToolDatabase" where
  "TraverseDecl matchList [] tdb = (True, tdb)"
| "TraverseDecl matchList (d # ds) tdb =
     (let (go, tdb1) = VisitCXXRecordDecl matchList d tdb
      in if go then TraverseDecl matchList ds tdb1 else (False, tdb1))"

section \<open>The serializer\<close>

text \<open>
  \<open>appendVal\<close> appends \<open>a\<close> to \<open>t\<close> once per iteration of a counting loop; a count that is
  zero or negative appends nothing.
\<close>

function appendVal_loop :: "int \<Rightarrow> int \<Rightarrow> string \<Rightarrow> string \<Rightarrow> string" where
  "appendVal_loop i num t a = (if i < num then appendVal_loop (i + 1) num (t @ a) a else t)"
  by pat_completeness auto
termination
  by (relation "measure (\<lambda>(i, num, t, a). nat (num - i))") auto

declare appendVal_loop.simps [simp del]

definition appendVal :: "string \<Rightarrow> string \<Rightarrow> int \<Rightarrow> string" where
  "appendVal t a num = appendVal_loop 0 num t a"

text \<open>
  An output stream is the text written to it so far, and \<open><<\<close> appends. Each \<open>dump\<close> takes
  the stream and returns it, as the member functions do.
\<close>

definition FieldDatabase_dump :: "string \<Rightarrow> FieldDatabase \<Rightarrow> int \<Rightarrow> string" where
  \<open>FieldDatabase_dump out fdb indent =
     (let indent_str = appendVal [] '' '' indent;
          member_indent_str = appendVal [] '' '' (indent + 4);
          out = out @ indent_str @ ''{\<newline>'';
          out = out @ member_indent_str @ ''"type" : "'' @ type fdb @ ''",\<newline>'';
          out = out @ member_indent_str @ ''"variable": "'' @ variable fdb @ ''"'';
          out = out @ ''\<newline>'' @ indent_str @ ''}''
      in out)\<close>

fun ClassDatabase_dump_loop :: "string \<Rightarrow> FieldDatabase list \<Rightarrow> int \<Rightarrow> int \<Rightarrow> string" where
  "ClassDatabase_dump_loop out [] iter indent = out"
| "ClassDatabase_dump_loop out (fdb # rest) iter indent =
     (let out = (if iter > 0 then out @ '',\<newline>'' else out);
          iter = iter + 1;
          out = FieldDatabase_dump out fdb (indent + 8)
      in ClassDatabase_dump_loop out rest iter indent)"

definition ClassDatabase_dump :: "string \<Rightarrow> ClassDatabase \<Rightarrow> int \<Rightarrow> string" where
  \<open>ClassDatabase_dump out cdb indent =
     (let indent_str = appendVal [] '' '' indent;
          member_indent_str = appendVal [] '' '' (indent + 4);
          out = out @ indent_str @ ''{\<newline>'';
          out = out @ member_indent_str @ ''"name": "'' @ m_name cdb @ ''",\<newline>'';
          out =
            (if m_fields cdb = [] then out @ member_indent_str @ ''"fields": []''
             else
               (let out = out @ member_indent_str @ ''"fields":\<newline>'';
                    out = out @ member_indent_str @ ''[\<newline>'';
                    out = ClassDatabase_dump_loop out (m_fields cdb) 0 indent;
                    out = out @ ''\<newline>'' @ member_indent_str @ '']''
                in out));
          out = out @ ''\<newline>'' @ indent_str @ ''}''
      in out)\<close>

fun ToolDatabase_dump_loop :: "string \<Rightarrow> ClassDatabase list \<Rightarrow> int \<Rightarrow> int \<Rightarrow> string" where
  "ToolDatabase_dump_loop out [] iter indent = out"
| "ToolDatabase_dump_loop out (cdb # rest) iter indent =
     (let out = (if iter > 0 then out @ '',\<newline>'' else out);
          iter = iter + 1;
          out = ClassDatabase_dump out cdb (indent + 4)
      in ToolDatabase_dump_loop out rest iter indent)"

definition ToolDatabase_dump :: "string \<Rightarrow> ToolDatabase \<Rightarrow> int \<Rightarrow> string" where
  "ToolDatabase_dump out tdb indent =
     (let indent_str = appendVal [] '' '' indent;
          out = out @ ''\<newline>'' @ indent_str @ ''[\<newline>'';
          out = ToolDatabase_dump_loop out (m_classes tdb) 0 indent;
          out = out @ ''\<newline>'' @ indent_str @ '']''
      in out)"

section \<open>The driver\<close>

text \<open>
  What the driver touches outside the program: the text sent to \<open>llvm::outs()\<close> and to
  \<open>llvm::errs()\<close>, the contents of the files, which paths the system lets the program open
  for writing, and a log of the paths it tried to open.
\<close>

record world =
  w_outs :: string
  w_errs :: string
  w_files :: "string \<Rightarrow> string option"
  w_can_open :: "string \<Rightarrow> bool"
  w_open_attempts :: "string list"

record ofstream =
  os_path :: string
  os_failbit :: bool
  os_badbit :: bool

text \<open>
  \<open>c_str()\<close> hands the bytes up to the first zero byte to the stream constructor. The
  constructor of \<open>std::ofstream\<close> opens with mode \<open>out\<close>, which empties the file; when the
  file cannot be opened it sets \<open>failbit\<close> and leaves the file system alone. \<open>fail()\<close> reads
  \<open>failbit\<close> or \<open>badbit\<close>, \<open>bad()\<close> reads \<open>badbit\<close>. Writes to a stream that opened are
  taken to succeed (the program never checks them) and to store the bytes as they are
  written, without newline translation.
\<close>

definition c_str :: "string \<Rightarrow> string" where
  "c_str s = takeWhile (\<lambda>c. c \<noteq> CHR 0x00) s"

definition ofstream_ctor :: "string \<Rightarrow> world \<Rightarrow> ofstream \<times> world" where
  "ofstream_ctor path w =
     (let w1 = w\<lparr>w_open_attempts := w_open_attempts w @ [path]\<rparr>
      in if w_can_open w path
         then (\<lparr>os_path = path, os_failbit = False, os_badbit = False\<rparr>,
               w1\<lparr>w_files := (w_files w1)(path \<mapsto> [])\<rparr>)
         else (\<lparr>os_path = path, os_failbit = True, os_badbit = False\<rparr>, w1))"

definition ofstream_fail :: "ofstream \<Rightarrow> bool" where
  "ofstream_fail out = (os_failbit out \<or> os_badbit out)"

definition ofstream_bad :: "ofstream \<Rightarrow> bool" where
  "ofstream_bad out = os_badbit out"

definition ofstream_text :: "ofstream \<Rightarrow> world \<Rightarrow> string" where
  "ofstream_text out w = (case w_files w (os_path out) of None \<Rightarrow> [] | Some t \<Rightarrow> t)"

definition dump_tool_database :: "string \<Rightarrow> ToolDatabase \<Rightarrow> world \<Rightarrow> int \<times> world" where
  "dump_tool_database OutputFilename global_tdb w =
     (if OutputFilename = ''-'' then
        (let w = w\<lparr>w_outs := ToolDatabase_dump (w_outs w) global_tdb 0\<rparr>;
             w = w\<lparr>w_outs := w_outs w @ ''\<newline>''\<rparr>
         in (0, w))
      else
        (let (out, w) = ofstream_ctor (c_str OutputFilename) w
         in if ofstream_fail out \<or> ofstream_bad out then
              (1, w\<lparr>w_errs := w_errs w @ ''Failed to open output file '' @ OutputFilename
                               @ '' for writing.''\<rparr>)
            else
              (0, w\<lparr>w_files := (w_files w)(os_path out \<mapsto>
                                  ToolDatabase_dump (ofstream_text out w) global_tdb 0)\<rparr>)))"

text \<open>
  \<open>main\<close> after option parsing. \<open>Tool.run\<close> belongs to the front end: it is given by its
  result code and by the class declarations its traversal meets, which the callback folds
  into the global database, empty at program start.
\<close>

definition main ::
  "string \<Rightarrow> string list \<Rightarrow> int \<Rightarrow> CXXRecordDecl list \<Rightarrow> world \<Rightarrow> int \<times> world" where
  "main OutputFilename matchList run_result decls w =
     (let global_tdb = snd (TraverseDecl matchList decls \<lparr>m_classes = []\<rparr>);
          result = run_result
      in if result = 0 then dump_tool_database OutputFilename global_tdb w else (result, w))"

section \<open>The layout the specification prescribes\<close>

text \<open>
  These definitions follow the words of the specification, not the code. The text of a
  database whose bracket stands in column \<open>col\<close> puts the brace of every record 4 columns
  further right, the lines of a record's body 4 columns right of the record's brace, and the
  brace of every field block 4 columns right of the record's body; blocks are separated by a
  comma and a newline.
\<close>

definition spec_spaces :: "nat \<Rightarrow> string" where
  "spec_spaces n = replicate n (CHR '' '')"

fun spec_join :: "string \<Rightarrow> string list \<Rightarrow> string" where
  "spec_join sep [] = []"
| "spec_join sep [b] = b"
| "spec_join sep (b # c # bs) = b @ sep @ spec_join sep (c # bs)"

definition spec_field_block :: "nat \<Rightarrow> FieldDatabase \<Rightarrow> string" where
  \<open>spec_field_block col f =
     spec_spaces col @ ''{\<newline>''
     @ spec_spaces (col + 4) @ ''"type" : "'' @ type f @ ''",\<newline>''
     @ spec_spaces (col + 4) @ ''"variable": "'' @ variable f @ ''"\<newline>''
     @ spec_spaces col @ ''}''\<close>

definition spec_record_block :: "nat \<Rightarrow> ClassDatabase \<Rightarrow> string" where
  \<open>spec_record_block col c =
     (let body = col + 4 in
      spec_spaces col @ ''{\<newline>''
      @ spec_spaces body @ ''"name": "'' @ m_name c @ ''",\<newline>''
      @ (if m_fields c = [] then spec_spaces body @ ''"fields": []''
         else spec_spaces body @ ''"fields":\<newline>''
              @ spec_spaces body @ ''[\<newline>''
              @ spec_join '',\<newline>'' (map (spec_field_block (body + 4)) (m_fields c))
              @ ''\<newline>'' @ spec_spaces body @ '']'')
      @ ''\<newline>'' @ spec_spaces col @ ''}'')\<close>

definition spec_database_text :: "nat \<Rightarrow> ToolDatabase \<Rightarrow> string" where
  "spec_database_text col db =
     ''\<newline>'' @ spec_spaces col @ ''[\<newline>''
     @ spec_join '',\<newline>'' (map (spec_record_block (col + 4)) (m_classes db))
     @ ''\<newline>'' @ spec_spaces col @ '']''"

section \<open>Properties of the name filter\<close>

lemma string_find_None: "string_find s m = None \<longleftrightarrow> \<not> sublist m s"
  by (induction s) (auto simp: sublist_Cons_right)

lemma string_find_sublist: "string_find s m \<noteq> None \<longleftrightarrow> sublist m s"
  by (simp only: string_find_None not_not)

lemma shouldVisit_loop_iff:
  "shouldVisit_loop class_name ms \<longleftrightarrow> (\<exists>m \<in> set ms. sublist m class_name)"
  by (induction ms) (simp_all only: shouldVisit_loop.simps string_find_sublist
      list.set ball_simps bex_simps if_True if_False, auto)

text \<open>
  Claim C1. With an empty match list every qualified name is included. With a non-empty one
  a name is included exactly when some pattern of the list occurs in it as a contiguous
  substring, compared byte by byte (so case matters). For the list \<open>[Foo]\<close> the names
  \<open>Foo\<close> and \<open>NsFoo::Baz\<close> are included, \<open>Bar\<close> is not, and the pattern \<open>foo\<close> does not
  select \<open>Foo\<close>.
\<close>

theorem shouldVisit_substring:
  "shouldVisit [] \<lparr>rd_getQualifiedNameAsString = q, rd_fields = fs\<rparr>
   \<and> (patterns \<noteq> [] \<longrightarrow>
        shouldVisit patterns \<lparr>rd_getQualifiedNameAsString = q, rd_fields = fs\<rparr>
        = (\<exists>p \<in> set patterns. \<exists>pre suf. q = pre @ p @ suf))
   \<and> shouldVisit [''Foo''] \<lparr>rd_getQualifiedNameAsString = ''Foo'', rd_fields = fs\<rparr>
   \<and> shouldVisit [''Foo''] \<lparr>rd_getQualifiedNameAsString = ''NsFoo::Baz'', rd_fields = fs\<rparr>
   \<and> \<not> shouldVisit [''Foo''] \<lparr>rd_getQualifiedNameAsString = ''Bar'', rd_fields = fs\<rparr>
   \<and> \<not> shouldVisit [''foo''] \<lparr>rd_getQualifiedNameAsString = ''Foo'', rd_fields = fs\<rparr>"
proof -
  have general: "shouldVisit ps \<lparr>rd_getQualifiedNameAsString = n, rd_fields = fs\<rparr>
      = (ps = [] \<or> (\<exists>p \<in> set ps. \<exists>pre suf. n = pre @ p @ suf))" for ps n
    by (simp add: shouldVisit_def shouldVisit_loop_iff sublist_def)
  have foo: "shouldVisit [''Foo''] \<lparr>rd_getQualifiedNameAsString = ''Foo'', rd_fields = fs\<rparr>"
    by (simp add: shouldVisit_def)
  have baz: "shouldVisit [''Foo''] \<lparr>rd_getQualifiedNameAsString = ''NsFoo::Baz'', rd_fields = fs\<rparr>"
    by (simp add: shouldVisit_def)
  have bar: "\<not> shouldVisit [''Foo''] \<lparr>rd_getQualifiedNameAsString = ''Bar'', rd_fields = fs\<rparr>"
    by (simp add: shouldVisit_def)
  have lower: "\<not> shouldVisit [''foo''] \<lparr>rd_getQualifiedNameAsString = ''Foo'', rd_fields = fs\<rparr>"
    by (simp add: shouldVisit_def)
  from general [of "[]" q] general [of patterns q] foo baz bar lower show ?thesis
    by simp
qed

theorem shouldVisit_substring_witness:
  "[''Foo'', ''Qux''] \<noteq> []
   \<and> shouldVisit [''Foo'', ''Qux''] \<lparr>rd_getQualifiedNameAsString = ''NsFoo::Baz'', rd_fields = []\<rparr>
   \<and> (\<exists>p \<in> set [''Foo'', ''Qux'']. \<exists>pre suf. ''NsFoo::Baz'' = pre @ p @ suf)"
  using shouldVisit_substring [of "''NsFoo::Baz''" "[]" "[''Foo'', ''Qux'']"]
  by (simp add: shouldVisit_def)

section \<open>Properties of the serializer\<close>

text \<open>The counting loop of \<open>appendVal\<close> appends its argument \<open>num - i\<close> times.\<close>

lemma appendVal_loop_eq: "appendVal_loop i num t a = t @ concat (replicate (nat (num - i)) a)"
proof (induction i num t a rule: appendVal_loop.induct)
  case (1 i num t a)
  show ?case
  proof (cases "i < num")
    case True
    then have "nat (num - i) = Suc (nat (num - (i + 1)))" by simp
    with 1 True show ?thesis by (subst appendVal_loop.simps) simp
  next
    case False
    then show ?thesis by (subst appendVal_loop.simps) simp
  qed
qed

lemma appendVal_spaces: "appendVal [] '' '' n = replicate (nat n) (CHR '' '')"
  by (simp add: appendVal_def appendVal_loop_eq)

lemma FieldDatabase_dump_append:
  "FieldDatabase_dump out fdb indent = out @ FieldDatabase_dump [] fdb indent"
  by (simp add: FieldDatabase_dump_def Let_def)

lemma ClassDatabase_dump_loop_append:
  "ClassDatabase_dump_loop out fs iter indent = out @ ClassDatabase_dump_loop [] fs iter indent"
proof (induction fs arbitrary: out iter)
  case Nil
  show ?case by simp
next
  case (Cons f fs)
  define pre where "pre = (if iter > 0 then '',\<newline>'' else [])"
  have "ClassDatabase_dump_loop out (f # fs) iter indent
      = ClassDatabase_dump_loop (FieldDatabase_dump (out @ pre) f (indent + 8)) fs (iter + 1) indent"
    by (simp add: pre_def)
  also have "\<dots> = FieldDatabase_dump (out @ pre) f (indent + 8)
      @ ClassDatabase_dump_loop [] fs (iter + 1) indent"
    by (rule Cons.IH)
  also have "FieldDatabase_dump (out @ pre) f (indent + 8)
      = out @ FieldDatabase_dump pre f (indent + 8)"
    by (simp add: FieldDatabase_dump_append [of "out @ pre"] FieldDatabase_dump_append [of pre])
  finally have lhs: "ClassDatabase_dump_loop out (f # fs) iter indent
      = out @ FieldDatabase_dump pre f (indent + 8)
        @ ClassDatabase_dump_loop [] fs (iter + 1) indent"
    by simp
  have "ClassDatabase_dump_loop [] (f # fs) iter indent
      = ClassDatabase_dump_loop (FieldDatabase_dump pre f (indent + 8)) fs (iter + 1) indent"
    by (simp add: pre_def)
  also have "\<dots> = FieldDatabase_dump pre f (indent + 8)
      @ ClassDatabase_dump_loop [] fs (iter + 1) indent"
    by (rule Cons.IH)
  finally show ?case using lhs by simp
qed

lemma ClassDatabase_dump_append:
  "ClassDatabase_dump out cdb indent = out @ ClassDatabase_dump [] cdb indent"
proof -
  have loop: "ClassDatabase_dump_loop (a @ b) (m_fields cdb) 0 indent
      = a @ ClassDatabase_dump_loop b (m_fields cdb) 0 indent" for a b
    by (simp add: ClassDatabase_dump_loop_append [of "a @ b"]
        ClassDatabase_dump_loop_append [of b])
  show ?thesis
    by (simp add: ClassDatabase_dump_def Let_def loop [of out, simplified])
qed

lemma ToolDatabase_dump_loop_append:
  "ToolDatabase_dump_loop out cs iter indent = out @ ToolDatabase_dump_loop [] cs iter indent"
proof (induction cs arbitrary: out iter)
  case Nil
  show ?case by simp
next
  case (Cons c cs)
  define pre where "pre = (if iter > 0 then '',\<newline>'' else [])"
  have "ToolDatabase_dump_loop out (c # cs) iter indent
      = ToolDatabase_dump_loop (ClassDatabase_dump (out @ pre) c (indent + 4)) cs (iter + 1) indent"
    by (simp add: pre_def)
  also have "\<dots> = ClassDatabase_dump (out @ pre) c (indent + 4)
      @ ToolDatabase_dump_loop [] cs (iter + 1) indent"
    by (rule Cons.IH)
  also have "ClassDatabase_dump (out @ pre) c (indent + 4)
      = out @ ClassDatabase_dump pre c (indent + 4)"
    by (simp add: ClassDatabase_dump_append [of "out @ pre"] ClassDatabase_dump_append [of pre])
  finally have lhs: "ToolDatabase_dump_loop out (c # cs) iter indent
      = out @ ClassDatabase_dump pre c (indent + 4)
        @ ToolDatabase_dump_loop [] cs (iter + 1) indent"
    by simp
  have "ToolDatabase_dump_loop [] (c # cs) iter indent
      = ToolDatabase_dump_loop (ClassDatabase_dump pre c (indent + 4)) cs (iter + 1) indent"
    by (simp add: pre_def)
  also have "\<dots> = ClassDatabase_dump pre c (indent + 4)
      @ ToolDatabase_dump_loop [] cs (iter + 1) indent"
    by (rule Cons.IH)
  finally show ?case using lhs by simp
qed

lemma ToolDatabase_dump_append:
  "ToolDatabase_dump out tdb indent = out @ ToolDatabase_dump [] tdb indent"
proof -
  have loop: "ToolDatabase_dump_loop (a @ b) (m_classes tdb) 0 indent
      = a @ ToolDatabase_dump_loop b (m_classes tdb) 0 indent" for a b
    by (simp add: ToolDatabase_dump_loop_append [of "a @ b"]
        ToolDatabase_dump_loop_append [of b])
  show ?thesis
    by (simp add: ToolDatabase_dump_def Let_def loop [of out, simplified])
qed

text \<open>
  Claim C3, as the specification states it: an empty database is printed as \<open>[\<close> with
  \<open>]\<close> on the following line. The program prints a newline, \<open>[\<close>, a newline, a second
  newline and \<open>]\<close>: the text \<open>[\<close>, newline, \<open>]\<close> does not occur in the output at base
  indentation 0.
\<close>

theorem ToolDatabase_dump_empty_counterexample:
  "ToolDatabase_dump [] \<lparr>m_classes = []\<rparr> 0 = ''\<newline>[\<newline>\<newline>]''
   \<and> string_find (ToolDatabase_dump [] \<lparr>m_classes = []\<rparr> 0) ''[\<newline>]'' = None"
  by (simp add: ToolDatabase_dump_def appendVal_spaces)

text \<open>
  Claim C3, amended. For every base indentation the text of an empty database is a newline,
  the indentation, \<open>[\<close>, a newline, an empty line, the indentation and \<open>]\<close>: the closing
  bracket stands two lines below the opening one, and nothing but the two newlines and the
  indentation of \<open>]\<close> lies between the brackets.
\<close>

theorem ToolDatabase_dump_empty:
  "ToolDatabase_dump out \<lparr>m_classes = []\<rparr> indent =
     out @ ''\<newline>'' @ replicate (nat indent) (CHR '' '') @ ''[\<newline>''
     @ ''\<newline>'' @ replicate (nat indent) (CHR '' '') @ '']''"
  by (simp add: ToolDatabase_dump_def appendVal_spaces Let_def)

text \<open>
  Claim C4. A database holding one record with one field, printed at base indentation 0 to
  an empty stream, gives the text below, in which the name, the type and the variable stand
  between the quotes byte for byte as they are stored. For the record \<open>Foo\<close> with the field
  of type \<open>int\<close> named \<open>Foo::x\<close> the text contains the entry \<open>"name": "Foo"\<close> and a
  \<open>fields\<close> array with the single object holding \<open>"type" : "int"\<close> and
  \<open>"variable": "Foo::x"\<close>.
\<close>

theorem ToolDatabase_dump_single:
  \<open>ToolDatabase_dump []
     \<lparr>m_classes = [\<lparr>m_fields = [\<lparr>type = t, variable = v\<rparr>], m_name = n\<rparr>]\<rparr> 0 =
     ''\<newline>[\<newline>''
     @ ''    {\<newline>''
     @ ''        "name": "'' @ n @ ''",\<newline>''
     @ ''        "fields":\<newline>''
     @ ''        [\<newline>''
     @ ''            {\<newline>''
     @ ''                "type" : "'' @ t @ ''",\<newline>''
     @ ''                "variable": "'' @ v @ ''"\<newline>''
     @ ''            }\<newline>''
     @ ''        ]\<newline>''
     @ ''    }\<newline>''
     @ '']''
   \<and> ToolDatabase_dump []
     \<lparr>m_classes = [\<lparr>m_fields = [\<lparr>type = ''int'', variable = ''Foo::x''\<rparr>],
                    m_name = ''Foo''\<rparr>]\<rparr> 0 =
     ''\<newline>[\<newline>''
     @ ''    {\<newline>''
     @ ''        "name": "Foo",\<newline>''
     @ ''        "fields":\<newline>''
     @ ''        [\<newline>''
     @ ''            {\<newline>''
     @ ''                "type" : "int",\<newline>''
     @ ''                "variable": "Foo::x"\<newline>''
     @ ''            }\<newline>''
     @ ''        ]\<newline>''
     @ ''    }\<newline>''
     @ '']''\<close>
  by (simp add: ToolDatabase_dump_def ClassDatabase_dump_def FieldDatabase_dump_def
      appendVal_spaces Let_def eval_nat_numeral)

text \<open>
  Claim C5. A record without fields is printed with the entry \<open>"fields": []\<close> after its
  name entry, whatever the stream held and whatever the indentation; the text differs from
  the one with an empty quoted string and from the one with \<open>null\<close> in that place.
\<close>

theorem ClassDatabase_dump_no_fields:
  \<open>m_fields cdb = [] \<Longrightarrow>
     ClassDatabase_dump out cdb indent =
       out @ replicate (nat indent) (CHR '' '') @ ''{\<newline>''
       @ replicate (nat (indent + 4)) (CHR '' '') @ ''"name": "'' @ m_name cdb @ ''",\<newline>''
       @ replicate (nat (indent + 4)) (CHR '' '') @ ''"fields": []''
       @ ''\<newline>'' @ replicate (nat indent) (CHR '' '') @ ''}''
     \<and> ClassDatabase_dump out cdb indent \<noteq>
       out @ replicate (nat indent) (CHR '' '') @ ''{\<newline>''
       @ replicate (nat (indent + 4)) (CHR '' '') @ ''"name": "'' @ m_name cdb @ ''",\<newline>''
       @ replicate (nat (indent + 4)) (CHR '' '') @ ''"fields": ""''
       @ ''\<newline>'' @ replicate (nat indent) (CHR '' '') @ ''}''
     \<and> ClassDatabase_dump out cdb indent \<noteq>
       out @ replicate (nat indent) (CHR '' '') @ ''{\<newline>''
       @ replicate (nat (indent + 4)) (CHR '' '') @ ''"name": "'' @ m_name cdb @ ''",\<newline>''
       @ replicate (nat (indent + 4)) (CHR '' '') @ ''"fields": null''
       @ ''\<newline>'' @ replicate (nat indent) (CHR '' '') @ ''}''\<close>
  by (simp add: ClassDatabase_dump_def appendVal_spaces Let_def)

theorem ClassDatabase_dump_no_fields_witness:
  \<open>m_fields \<lparr>m_fields = [], m_name = ''Foo''\<rparr> = []
   \<and> ClassDatabase_dump [] \<lparr>m_fields = [], m_name = ''Foo''\<rparr> 4 =
       ''    {\<newline>''
       @ ''        "name": "Foo",\<newline>''
       @ ''        "fields": []\<newline>''
       @ ''    }''\<close>
  using ClassDatabase_dump_no_fields [of "\<lparr>m_fields = [], m_name = ''Foo''\<rparr>" "[]" 4]
  by (simp add: eval_nat_numeral)

subsection \<open>The program prints the prescribed layout\<close>

lemma appendVal_spec_spaces: "appendVal [] '' '' n = spec_spaces (nat n)"
  by (simp add: appendVal_spaces spec_spaces_def)

lemma FieldDatabase_dump_spec:
  "0 \<le> indent \<Longrightarrow> FieldDatabase_dump out fdb indent = out @ spec_field_block (nat indent) fdb"
  by (simp add: FieldDatabase_dump_def Let_def appendVal_spec_spaces spec_field_block_def
      nat_add_distrib)

lemma spec_join_Cons: "spec_join sep (b # bs) = b @ concat (map (\<lambda>c. sep @ c) bs)"
  by (induction bs arbitrary: b) simp_all

lemma ClassDatabase_dump_loop_pos:
  "0 \<le> indent \<Longrightarrow> 0 < iter \<Longrightarrow> ClassDatabase_dump_loop out fs iter indent =
     out @ concat (map (\<lambda>f. '',\<newline>'' @ spec_field_block (nat indent + 8) f) fs)"
proof (induction fs arbitrary: out iter)
  case Nil
  then show ?case by simp
next
  case (Cons f fs)
  from Cons.prems have "0 < iter + 1" by simp
  from Cons.IH [OF Cons.prems(1) this] Cons.prems show ?case
    by (simp add: FieldDatabase_dump_spec nat_add_distrib)
qed

lemma ClassDatabase_dump_loop_join:
  "0 \<le> indent \<Longrightarrow> ClassDatabase_dump_loop out fs 0 indent =
     out @ spec_join '',\<newline>'' (map (spec_field_block (nat indent + 8)) fs)"
proof (cases fs)
  case Nil
  then show ?thesis by simp
next
  case (Cons f rest)
  assume nonneg: "0 \<le> indent"
  have "ClassDatabase_dump_loop out (f # rest) 0 indent =
      ClassDatabase_dump_loop (FieldDatabase_dump out f (indent + 8)) rest 1 indent"
    by simp
  also have "\<dots> = FieldDatabase_dump out f (indent + 8)
      @ concat (map (\<lambda>f. '',\<newline>'' @ spec_field_block (nat indent + 8) f) rest)"
    using nonneg by (rule ClassDatabase_dump_loop_pos) simp
  finally show ?thesis
    using Cons nonneg
    by (simp add: spec_join_Cons FieldDatabase_dump_spec nat_add_distrib comp_def)
qed

lemma ClassDatabase_dump_spec:
  "0 \<le> indent \<Longrightarrow> ClassDatabase_dump out cdb indent = out @ spec_record_block (nat indent) cdb"
  by (simp add: ClassDatabase_dump_def Let_def appendVal_spec_spaces spec_record_block_def
      ClassDatabase_dump_loop_join nat_add_distrib add.commute [of 8])

lemma ToolDatabase_dump_loop_pos:
  "0 \<le> indent \<Longrightarrow> 0 < iter \<Longrightarrow> ToolDatabase_dump_loop out cs iter indent =
     out @ concat (map (\<lambda>c. '',\<newline>'' @ spec_record_block (nat indent + 4) c) cs)"
proof (induction cs arbitrary: out iter)
  case Nil
  then show ?case by simp
next
  case (Cons c cs)
  from Cons.prems have "0 < iter + 1" by simp
  from Cons.IH [OF Cons.prems(1) this] Cons.prems show ?case
    by (simp add: ClassDatabase_dump_spec nat_add_distrib)
qed

lemma ToolDatabase_dump_loop_join:
  "0 \<le> indent \<Longrightarrow> ToolDatabase_dump_loop out cs 0 indent =
     out @ spec_join '',\<newline>'' (map (spec_record_block (nat indent + 4)) cs)"
proof (cases cs)
  case Nil
  then show ?thesis by simp
next
  case (Cons c rest)
  assume nonneg: "0 \<le> indent"
  have "ToolDatabase_dump_loop out (c # rest) 0 indent =
      ToolDatabase_dump_loop (ClassDatabase_dump out c (indent + 4)) rest 1 indent"
    by simp
  also have "\<dots> = ClassDatabase_dump out c (indent + 4)
      @ concat (map (\<lambda>c. '',\<newline>'' @ spec_record_block (nat indent + 4) c) rest)"
    using nonneg by (rule ToolDatabase_dump_loop_pos) simp
  finally show ?thesis
    using Cons nonneg
    by (simp add: spec_join_Cons ClassDatabase_dump_spec nat_add_distrib comp_def)
qed

text \<open>
  Claim C6. At a base indentation that is not negative the program appends to the stream
  exactly the text of the prescribed layout: the brace of each record 4 columns right of the
  bracket of the database, the body of a record 4 columns right of its brace, and the brace
  of each field block 4 columns right of the body of its record.
\<close>

theorem ToolDatabase_dump_layout:
  "0 \<le> indent \<Longrightarrow> ToolDatabase_dump out tdb indent = out @ spec_database_text (nat indent) tdb"
  by (simp add: ToolDatabase_dump_def Let_def appendVal_spec_spaces spec_database_text_def
      ToolDatabase_dump_loop_join)


theorem ToolDatabase_dump_layout_witness:
  \<open>(0::int) \<le> 2
   \<and> ToolDatabase_dump []
       \<lparr>m_classes = [\<lparr>m_fields = [\<lparr>type = ''int'', variable = ''A::x''\<rparr>,
                                   \<lparr>type = ''char'', variable = ''A::y''\<rparr>], m_name = ''A''\<rparr>,
                      \<lparr>m_fields = [], m_name = ''B''\<rparr>]\<rparr> 2 =
       ''\<newline>''
       @ ''  [\<newline>''
       @ ''      {\<newline>''
       @ ''          "name": "A",\<newline>''
       @ ''          "fields":\<newline>''
       @ ''          [\<newline>''
       @ ''              {\<newline>''
       @ ''                  "type" : "int",\<newline>''
       @ ''                  "variable": "A::x"\<newline>''
       @ ''              },\<newline>''
       @ ''              {\<newline>''
       @ ''                  "type" : "char",\<newline>''
       @ ''                  "variable": "A::y"\<newline>''
       @ ''              }\<newline>''
       @ ''          ]\<newline>''
       @ ''      },\<newline>''
       @ ''      {\<newline>''
       @ ''          "name": "B",\<newline>''
       @ ''          "fields": []\<newline>''
       @ ''      }\<newline>''
       @ ''  ]''\<close>
  using ToolDatabase_dump_layout [of 2 "[]"
      "\<lparr>m_classes = [\<lparr>m_fields = [\<lparr>type = ''int'', variable = ''A::x''\<rparr>,
                                   \<lparr>type = ''char'', variable = ''A::y''\<rparr>], m_name = ''A''\<rparr>,
                      \<lparr>m_fields = [], m_name = ''B''\<rparr>]\<rparr>"]
  by (simp add: spec_database_text_def spec_record_block_def spec_field_block_def
      spec_spaces_def Let_def eval_nat_numeral)

text \<open>
  Claim C7. The text a call of \<open>ToolDatabase::dump\<close> appends to its stream depends on the
  database and the base indentation only: two calls on streams with different contents
  append the same bytes, each leaves what the stream held in place, and printing the same
  database twice to one stream appends the same text twice.
\<close>

theorem ToolDatabase_dump_deterministic:
  "drop (length out1) (ToolDatabase_dump out1 tdb indent)
     = drop (length out2) (ToolDatabase_dump out2 tdb indent)
   \<and> take (length out1) (ToolDatabase_dump out1 tdb indent) = out1
   \<and> ToolDatabase_dump (ToolDatabase_dump out1 tdb indent) tdb indent
     = out1 @ ToolDatabase_dump [] tdb indent @ ToolDatabase_dump [] tdb indent"
  by (simp add: ToolDatabase_dump_append [of out1] ToolDatabase_dump_append [of out2]
      ToolDatabase_dump_append [of "out1 @ ToolDatabase_dump [] tdb indent"])


section \<open>Properties of the traversal\<close>

text \<open>
  The two append operations in closed form, and the effect of the field loop on a database
  whose last record is the one the visitor is filling.
\<close>

lemma addClass_eq:
  "addClass name tdb =
     (length (m_classes tdb), tdb\<lparr>m_classes := m_classes tdb @ [\<lparr>m_fields = [], m_name = name\<rparr>]\<rparr>)"
  by (simp add: addClass_def Let_def)

lemma addField_eq:
  "addField cdb =
     (length (m_fields cdb), cdb\<lparr>m_fields := m_fields cdb @ [\<lparr>type = [], variable = []\<rparr>]\<rparr>)"
  by (simp add: addField_def Let_def)

lemma VisitCXXRecordDecl_body_last:
  "m_classes tdb = cs @ [c] \<Longrightarrow>
   VisitCXXRecordDecl_body (length cs) fdcl tdb =
     tdb\<lparr>m_classes := cs @ [c\<lparr>m_fields := m_fields c @
       [\<lparr>type = fd_getType fdcl, variable = fd_getQualifiedNameAsString fdcl\<rparr>]\<rparr>]\<rparr>"
  by (simp add: VisitCXXRecordDecl_body_def addField_eq)

lemma VisitCXXRecordDecl_loop_last:
  "m_classes tdb = cs @ [c] \<Longrightarrow>
   VisitCXXRecordDecl_loop (length cs) fdcls tdb =
     tdb\<lparr>m_classes := cs @ [c\<lparr>m_fields := m_fields c @
       map (\<lambda>f. \<lparr>type = fd_getType f, variable = fd_getQualifiedNameAsString f\<rparr>) fdcls\<rparr>]\<rparr>"
proof (induction fdcls arbitrary: tdb c)
  case Nil
  then show ?case by simp
next
  case (Cons fdcl rest)
  let ?c1 = "c\<lparr>m_fields := m_fields c @
       [\<lparr>type = fd_getType fdcl, variable = fd_getQualifiedNameAsString fdcl\<rparr>]\<rparr>"
  let ?tdb1 = "tdb\<lparr>m_classes := cs @ [?c1]\<rparr>"
  have step: "VisitCXXRecordDecl_body (length cs) fdcl tdb = ?tdb1"
    using Cons.prems by (rule VisitCXXRecordDecl_body_last)
  have "m_classes ?tdb1 = cs @ [?c1]" by simp
  from Cons.IH [OF this] step show ?case by simp
qed

lemma VisitCXXRecordDecl_eq:
  "VisitCXXRecordDecl matchList d tdb =
     (True,
      if shouldVisit matchList d
      then tdb\<lparr>m_classes := m_classes tdb @
             [\<lparr>m_fields = map (\<lambda>f. \<lparr>type = fd_getType f,
                                       variable = fd_getQualifiedNameAsString f\<rparr>) (rd_fields d),
               m_name = rd_getQualifiedNameAsString d\<rparr>]\<rparr>
      else tdb)"
proof (cases "shouldVisit matchList d")
  case False
  then show ?thesis by (simp add: VisitCXXRecordDecl_def)
next
  case True
  let ?c = "\<lparr>m_fields = [], m_name = rd_getQualifiedNameAsString d\<rparr>"
  let ?tdb1 = "tdb\<lparr>m_classes := m_classes tdb @ [?c]\<rparr>"
  have "m_classes ?tdb1 = m_classes tdb @ [?c]" by simp
  from VisitCXXRecordDecl_loop_last [OF this, of "rd_fields d"] True show ?thesis
    by (simp add: VisitCXXRecordDecl_def addClass_eq)
qed

lemma TraverseDecl_eq:
  "TraverseDecl matchList ds tdb =
     (True,
      tdb\<lparr>m_classes := m_classes tdb @
        map (\<lambda>d. \<lparr>m_fields = map (\<lambda>f. \<lparr>type = fd_getType f,
                                          variable = fd_getQualifiedNameAsString f\<rparr>) (rd_fields d),
                  m_name = rd_getQualifiedNameAsString d\<rparr>)
            (filter (shouldVisit matchList) ds)\<rparr>)"
proof (induction ds arbitrary: tdb)
  case Nil
  show ?case by simp
next
  case (Cons d ds)
  show ?case by (simp add: VisitCXXRecordDecl_eq Cons.IH)
qed

text \<open>
  Claim C2. Started on the empty database, the traversal of any sequence of declarations
  ends with one record per declaration that passes the name filter, in the order of those
  declarations; the fields of each record are the member pairs of its declaration, one field
  per pair and in the same order, and a record carries the qualified name of its
  declaration. A declaration the filter rejects leaves the database as it was, and every
  call of the callback tells the walker to go on.
\<close>

theorem TraverseDecl_records:
  "TraverseDecl matchList events \<lparr>m_classes = []\<rparr> =
     (True,
      \<lparr>m_classes =
         map (\<lambda>d. \<lparr>m_fields = map (\<lambda>f. \<lparr>type = fd_getType f,
                                           variable = fd_getQualifiedNameAsString f\<rparr>) (rd_fields d),
                   m_name = rd_getQualifiedNameAsString d\<rparr>)
             (filter (shouldVisit matchList) events)\<rparr>)
   \<and> length (m_classes (snd (TraverseDecl matchList events \<lparr>m_classes = []\<rparr>)))
     = length (filter (shouldVisit matchList) events)
   \<and> VisitCXXRecordDecl matchList d tdb =
       (True,
        if shouldVisit matchList d
        then tdb\<lparr>m_classes := m_classes tdb @
               [\<lparr>m_fields = map (\<lambda>f. \<lparr>type = fd_getType f,
                                         variable = fd_getQualifiedNameAsString f\<rparr>) (rd_fields d),
                 m_name = rd_getQualifiedNameAsString d\<rparr>]\<rparr>
        else tdb)"
  by (simp add: TraverseDecl_eq VisitCXXRecordDecl_eq)

theorem TraverseDecl_records_witness:
  "TraverseDecl [''Foo'']
     [\<lparr>rd_getQualifiedNameAsString = ''Foo'',
       rd_fields = [\<lparr>fd_getType = ''int'', fd_getQualifiedNameAsString = ''Foo::x''\<rparr>,
                    \<lparr>fd_getType = ''char *'', fd_getQualifiedNameAsString = ''Foo::y''\<rparr>]\<rparr>,
      \<lparr>rd_getQualifiedNameAsString = ''Bar'',
       rd_fields = [\<lparr>fd_getType = ''int'', fd_getQualifiedNameAsString = ''Bar::z''\<rparr>]\<rparr>,
      \<lparr>rd_getQualifiedNameAsString = ''NsFoo::Baz'', rd_fields = []\<rparr>]
     \<lparr>m_classes = []\<rparr> =
   (True,
    \<lparr>m_classes =
       [\<lparr>m_fields = [\<lparr>type = ''int'', variable = ''Foo::x''\<rparr>,
                     \<lparr>type = ''char *'', variable = ''Foo::y''\<rparr>], m_name = ''Foo''\<rparr>,
        \<lparr>m_fields = [], m_name = ''NsFoo::Baz''\<rparr>]\<rparr>)
   \<and> VisitCXXRecordDecl [''Foo'']
       \<lparr>rd_getQualifiedNameAsString = ''Bar'',
        rd_fields = [\<lparr>fd_getType = ''int'', fd_getQualifiedNameAsString = ''Bar::z''\<rparr>]\<rparr>
       \<lparr>m_classes = [\<lparr>m_fields = [], m_name = ''Foo''\<rparr>]\<rparr>
     = (True, \<lparr>m_classes = [\<lparr>m_fields = [], m_name = ''Foo''\<rparr>]\<rparr>)"
  using TraverseDecl_records [of "[''Foo'']"
     "[\<lparr>rd_getQualifiedNameAsString = ''Foo'',
       rd_fields = [\<lparr>fd_getType = ''int'', fd_getQualifiedNameAsString = ''Foo::x''\<rparr>,
                    \<lparr>fd_getType = ''char *'', fd_getQualifiedNameAsString = ''Foo::y''\<rparr>]\<rparr>,
      \<lparr>rd_getQualifiedNameAsString = ''Bar'',
       rd_fields = [\<lparr>fd_getType = ''int'', fd_getQualifiedNameAsString = ''Bar::z''\<rparr>]\<rparr>,
      \<lparr>rd_getQualifiedNameAsString = ''NsFoo::Baz'', rd_fields = []\<rparr>]"
     "\<lparr>rd_getQualifiedNameAsString = ''Bar'',
        rd_fields = [\<lparr>fd_getType = ''int'', fd_getQualifiedNameAsString = ''Bar::z''\<rparr>]\<rparr>"
     "\<lparr>m_classes = [\<lparr>m_fields = [], m_name = ''Foo''\<rparr>]\<rparr>"]
  by (simp add: shouldVisit_def)

text \<open>
  Claim C8. \<open>addClass\<close> puts the new record behind the records already there and
  \<open>addField\<close> puts the new field behind the fields already there. Appending a field to the
  most recently added record leaves all earlier records as they were and keeps the fields
  that record already had, in their order, in front of the new one. After a call of the
  callback, and after a whole traversal, the records the database held before are still its
  first records, unchanged.
\<close>

theorem append_keeps_earlier:
  "addClass name tdb =
     (length (m_classes tdb),
      tdb\<lparr>m_classes := m_classes tdb @ [\<lparr>m_fields = [], m_name = name\<rparr>]\<rparr>)
   \<and> addField cdb =
     (length (m_fields cdb),
      cdb\<lparr>m_fields := m_fields cdb @ [\<lparr>type = [], variable = []\<rparr>]\<rparr>)
   \<and> (m_classes tdb = cs @ [c] \<longrightarrow>
        m_classes (VisitCXXRecordDecl_body (length cs) fdcl tdb) =
          cs @ [c\<lparr>m_fields := m_fields c @
            [\<lparr>type = fd_getType fdcl, variable = fd_getQualifiedNameAsString fdcl\<rparr>]\<rparr>])
   \<and> take (length (m_classes tdb)) (m_classes (snd (VisitCXXRecordDecl matchList d tdb)))
     = m_classes tdb
   \<and> take (length (m_classes tdb)) (m_classes (snd (TraverseDecl matchList ds tdb)))
     = m_classes tdb"
  by (simp add: addClass_eq addField_eq VisitCXXRecordDecl_body_last VisitCXXRecordDecl_eq
      TraverseDecl_eq)

theorem append_keeps_earlier_witness:
  "m_classes \<lparr>m_classes = [\<lparr>m_fields = [], m_name = ''A''\<rparr>,
                           \<lparr>m_fields = [\<lparr>type = ''int'', variable = ''B::x''\<rparr>], m_name = ''B''\<rparr>]\<rparr>
     = [\<lparr>m_fields = [], m_name = ''A''\<rparr>]
       @ [\<lparr>m_fields = [\<lparr>type = ''int'', variable = ''B::x''\<rparr>], m_name = ''B''\<rparr>]
   \<and> m_classes (VisitCXXRecordDecl_body (length [\<lparr>m_fields = [], m_name = ''A''\<rparr>])
        \<lparr>fd_getType = ''char'', fd_getQualifiedNameAsString = ''B::y''\<rparr>
        \<lparr>m_classes = [\<lparr>m_fields = [], m_name = ''A''\<rparr>,
                       \<lparr>m_fields = [\<lparr>type = ''int'', variable = ''B::x''\<rparr>], m_name = ''B''\<rparr>]\<rparr>)
     = [\<lparr>m_fields = [], m_name = ''A''\<rparr>,
        \<lparr>m_fields = [\<lparr>type = ''int'', variable = ''B::x''\<rparr>,
                     \<lparr>type = ''char'', variable = ''B::y''\<rparr>], m_name = ''B''\<rparr>]"
  using append_keeps_earlier [of _ 
      "\<lparr>m_classes = [\<lparr>m_fields = [], m_name = ''A''\<rparr>,
                     \<lparr>m_fields = [\<lparr>type = ''int'', variable = ''B::x''\<rparr>], m_name = ''B''\<rparr>]\<rparr>"
      _ "[\<lparr>m_fields = [], m_name = ''A''\<rparr>]"
      "\<lparr>m_fields = [\<lparr>type = ''int'', variable = ''B::x''\<rparr>], m_name = ''B''\<rparr>"
      "\<lparr>fd_getType = ''char'', fd_getQualifiedNameAsString = ''B::y''\<rparr>"]
  by simp


section \<open>Properties of the driver\<close>

lemma c_str_no_zero: "CHR 0x00 \<notin> set s \<Longrightarrow> c_str s = s"
  by (auto simp: c_str_def)

lemma dump_tool_database_outs:
  "dump_tool_database ''-'' tdb w =
     (0, w\<lparr>w_outs := w_outs w @ ToolDatabase_dump [] tdb 0 @ ''\<newline>''\<rparr>)"
  by (simp add: dump_tool_database_def Let_def ToolDatabase_dump_append [of "w_outs w"])

lemma dump_tool_database_file:
  "OutputFilename \<noteq> ''-'' \<Longrightarrow> w_can_open w (c_str OutputFilename) \<Longrightarrow>
   dump_tool_database OutputFilename tdb w =
     (0, w\<lparr>w_open_attempts := w_open_attempts w @ [c_str OutputFilename],
            w_files := (w_files w)(c_str OutputFilename \<mapsto> ToolDatabase_dump [] tdb 0)\<rparr>)"
  by (simp add: dump_tool_database_def ofstream_ctor_def ofstream_fail_def ofstream_bad_def
      ofstream_text_def Let_def)

lemma dump_tool_database_fails:
  "OutputFilename \<noteq> ''-'' \<Longrightarrow> \<not> w_can_open w (c_str OutputFilename) \<Longrightarrow>
   dump_tool_database OutputFilename tdb w =
     (1, w\<lparr>w_open_attempts := w_open_attempts w @ [c_str OutputFilename],
            w_errs := w_errs w @ ''Failed to open output file '' @ OutputFilename
                      @ '' for writing.''\<rparr>)"
  by (simp add: dump_tool_database_def ofstream_ctor_def ofstream_fail_def ofstream_bad_def
      Let_def)

text \<open>
  Claim C9. With the output name \<open>-\<close> the driver writes to standard output, opens no file
  and returns 0. With any other name it opens the file of that name (the name itself when it
  holds no zero byte) once; if that succeeds
  the file holds the serialized database and nothing of its earlier content, and the driver
  returns 0. If the file cannot be opened the driver returns 1, which \<open>main\<close> returns as
  the outcome of the run, one message has gone to the error stream, the file was tried once
  and not again, and neither standard output nor any file has changed.
\<close>

theorem dump_tool_database_sink:
  "dump_tool_database ''-'' tdb w =
     (0, w\<lparr>w_outs := w_outs w @ ToolDatabase_dump [] tdb 0 @ ''\<newline>''\<rparr>)
   \<and> (CHR 0x00 \<notin> set OutputFilename \<longrightarrow> c_str OutputFilename = OutputFilename)
   \<and> (OutputFilename \<noteq> ''-'' \<and> w_can_open w (c_str OutputFilename) \<longrightarrow>
        dump_tool_database OutputFilename tdb w =
          (0, w\<lparr>w_open_attempts := w_open_attempts w @ [c_str OutputFilename],
                 w_files := (w_files w)(c_str OutputFilename \<mapsto> ToolDatabase_dump [] tdb 0)\<rparr>))
   \<and> (OutputFilename \<noteq> ''-'' \<and> \<not> w_can_open w (c_str OutputFilename) \<longrightarrow>
        dump_tool_database OutputFilename tdb w =
          (1, w\<lparr>w_open_attempts := w_open_attempts w @ [c_str OutputFilename],
                 w_errs := w_errs w @ ''Failed to open output file '' @ OutputFilename
                           @ '' for writing.''\<rparr>)
        \<and> main OutputFilename matchList 0 decls w =
          (1, w\<lparr>w_open_attempts := w_open_attempts w @ [c_str OutputFilename],
                 w_errs := w_errs w @ ''Failed to open output file '' @ OutputFilename
                           @ '' for writing.''\<rparr>))"
  by (simp add: dump_tool_database_outs dump_tool_database_file dump_tool_database_fails
      main_def Let_def c_str_no_zero)

theorem dump_tool_database_sink_witness:
  "''out.json'' \<noteq> ''-''
   \<and> w_can_open \<lparr>w_outs = [], w_errs = [], w_files = Map.empty(''out.json'' \<mapsto> ''old''),
        w_can_open = (\<lambda>p. p = ''out.json''), w_open_attempts = []\<rparr> (c_str ''out.json'')
   \<and> dump_tool_database ''out.json'' \<lparr>m_classes = []\<rparr>
        \<lparr>w_outs = [], w_errs = [], w_files = Map.empty(''out.json'' \<mapsto> ''old''),
         w_can_open = (\<lambda>p. p = ''out.json''), w_open_attempts = []\<rparr>
     = (0, \<lparr>w_outs = [], w_errs = [],
            w_files = Map.empty(''out.json'' \<mapsto> ''\<newline>[\<newline>\<newline>]''),
            w_can_open = (\<lambda>p. p = ''out.json''), w_open_attempts = [''out.json'']\<rparr>)
   \<and> ''/no/dir/x'' \<noteq> ''-''
   \<and> \<not> w_can_open \<lparr>w_outs = [], w_errs = [], w_files = Map.empty,
        w_can_open = (\<lambda>p. p = ''out.json''), w_open_attempts = []\<rparr> (c_str ''/no/dir/x'')
   \<and> main ''/no/dir/x'' [] 0 []
        \<lparr>w_outs = [], w_errs = [], w_files = Map.empty,
         w_can_open = (\<lambda>p. p = ''out.json''), w_open_attempts = []\<rparr>
     = (1, \<lparr>w_outs = [], w_errs = ''Failed to open output file /no/dir/x for writing.'',
            w_files = Map.empty,
            w_can_open = (\<lambda>p. p = ''out.json''), w_open_attempts = [''/no/dir/x'']\<rparr>)"
  using dump_tool_database_sink [of "\<lparr>m_classes = []\<rparr>"
        "\<lparr>w_outs = [], w_errs = [], w_files = Map.empty(''out.json'' \<mapsto> ''old''),
         w_can_open = (\<lambda>p. p = ''out.json''), w_open_attempts = []\<rparr>" "''out.json''" "[]" "[]"]
      dump_tool_database_sink [of "\<lparr>m_classes = []\<rparr>"
        "\<lparr>w_outs = [], w_errs = [], w_files = Map.empty,
         w_can_open = (\<lambda>p. p = ''out.json''), w_open_attempts = []\<rparr>" "''/no/dir/x''" "[]" "[]"]
  by (simp add: c_str_def ToolDatabase_dump_def appendVal_spaces Let_def)

text \<open>
  Claim C10. Standard output receives the serialized database followed by one newline; a
  file receives the serialized database and nothing after it. The two texts differ for
  every database.
\<close>

theorem dump_tool_database_trailing_newline:
  "w_outs (snd (dump_tool_database ''-'' tdb w))
     = w_outs w @ ToolDatabase_dump [] tdb 0 @ ''\<newline>''
   \<and> (OutputFilename \<noteq> ''-'' \<and> w_can_open w (c_str OutputFilename) \<longrightarrow>
        w_files (snd (dump_tool_database OutputFilename tdb w)) (c_str OutputFilename)
          = Some (ToolDatabase_dump [] tdb 0))
   \<and> ToolDatabase_dump [] tdb 0 @ ''\<newline>'' \<noteq> ToolDatabase_dump [] tdb 0"
  by (simp add: dump_tool_database_outs dump_tool_database_file)

theorem dump_tool_database_trailing_newline_witness:
  "''out.json'' \<noteq> ''-''
   \<and> w_can_open \<lparr>w_outs = [], w_errs = [], w_files = Map.empty,
        w_can_open = (\<lambda>p. True), w_open_attempts = []\<rparr> (c_str ''out.json'')
   \<and> w_files (snd (dump_tool_database ''out.json'' \<lparr>m_classes = []\<rparr>
        \<lparr>w_outs = [], w_errs = [], w_files = Map.empty,
         w_can_open = (\<lambda>p. True), w_open_attempts = []\<rparr>)) (c_str ''out.json'')
     = Some ''\<newline>[\<newline>\<newline>]''
   \<and> w_outs (snd (dump_tool_database ''-'' \<lparr>m_classes = []\<rparr>
        \<lparr>w_outs = [], w_errs = [], w_files = Map.empty,
         w_can_open = (\<lambda>p. True), w_open_attempts = []\<rparr>))
     = ''\<newline>[\<newline>\<newline>]\<newline>''"
  using dump_tool_database_trailing_newline [of "\<lparr>m_classes = []\<rparr>"
        "\<lparr>w_outs = [], w_errs = [], w_files = Map.empty,
         w_can_open = (\<lambda>p. True), w_open_attempts = []\<rparr>" "''out.json''"]
  by (simp add: ToolDatabase_dump_def appendVal_spaces Let_def)


end
